theory Spec2Isabelle
  imports Main "HOL-Library.Sublist"
begin

section \<open>The account and transaction model of \<open>src/main.py\<close>\<close>

text \<open>
  The core classes of the banking simulation are embedded as pure functions with
  explicit state passing: a method that mutates \<open>self\<close> takes the object and returns
  the updated one. Amounts and balances are Python numbers. This section reads them as
  unbounded integers (\<open>int\<close>), where the arithmetic is exact; a later section reads
  the same methods on doubles, the numbers that the menu passes. Every method of the core
  prints exactly one line before it returns; the line is modelled as a value of
  \<open>mensagem\<close> returned beside the boolean result.
\<close>

subsection \<open>Data\<close>

text \<open>
  The lines printed by \<open>Conta.sacar\<close>, \<open>Conta.depositar\<close> and \<open>ContaCorrente.sacar\<close>:
  \<^item> \<open>ValorInvalido\<close>: "Operacao falhou! Valor invalido."
  \<^item> \<open>SaldoInsuficiente\<close>: "Operacao falhou! Saldo insuficiente."
  \<^item> \<open>SaqueSucesso\<close>: "Saque realizado com sucesso!"
  \<^item> \<open>DepositoSucesso\<close>: "Deposito realizado com sucesso!"
  \<^item> \<open>AcimaLimite\<close>: "Operacao falhou! Valor acima do limite."
  \<^item> \<open>MaximoSaques\<close>: "Operacao falhou! Numero maximo de saques atingido."
\<close>

datatype mensagem =
  ValorInvalido | SaldoInsuficiente | SaqueSucesso | DepositoSucesso | AcimaLimite | MaximoSaques

text \<open>
  A transaction object: class \<open>Saque\<close> or class \<open>Deposito\<close>, each holding \<open>_valor\<close>.
\<close>

datatype Transacao = Saque int | Deposito int

text \<open>The property \<open>valor\<close> of both classes.\<close>

fun transacao_valor :: "Transacao \<Rightarrow> int" where
  "transacao_valor (Saque valor) = valor"
| "transacao_valor (Deposito valor) = valor"

text \<open>\<open>transacao.__class__.__name__\<close>; \<open>Saque.__name__\<close> is \<open>nome_classe (Saque v)\<close>.\<close>

fun nome_classe :: "Transacao \<Rightarrow> string" where
  "nome_classe (Saque valor) = ''Saque''"
| "nome_classe (Deposito valor) = ''Deposito''"

text \<open>
  One entry of the history: the dictionary with the keys \<open>tipo\<close>, \<open>valor\<close> and \<open>data\<close>
  built by \<open>Historico.adicionar_transacao\<close>. \<open>data\<close> is the formatted time of the call.
  The key \<open>valor\<close> is the field \<open>quantia\<close>, so that \<open>valor\<close> stays free as the name of
  the parameter of the methods.
\<close>

record registro =
  tipo :: string
  quantia :: int
  data :: string

text \<open>Class \<open>Historico\<close>: the list \<open>_transacoes\<close>, empty at construction.\<close>

record Historico =
  transacoes :: "registro list"

definition Historico_init :: Historico where
  "Historico_init = \<lparr>transacoes = []\<rparr>"

text \<open>
  Class \<open>Conta\<close>. The owning client is a reference that no method of the account
  follows; it is kept as an opaque identifier.
\<close>

record Conta =
  saldo :: int
  numero :: int
  agencia :: string
  cliente :: nat
  historico :: Historico

text \<open>Class \<open>ContaCorrente(Conta)\<close>: the inherited fields and the two limits.\<close>

record ContaCorrente = Conta +
  limite :: int
  limite_saques :: int

text \<open>\<open>Conta.__init__\<close> and \<open>ContaCorrente.__init__\<close> (defaults 500 and 3).\<close>

definition Conta_init :: "int \<Rightarrow> nat \<Rightarrow> Conta" where
  "Conta_init numero' cliente' =
     \<lparr>saldo = 0, numero = numero', agencia = ''0001'', cliente = cliente',
      historico = Historico_init\<rparr>"

definition ContaCorrente_init :: "int \<Rightarrow> nat \<Rightarrow> int \<Rightarrow> int \<Rightarrow> ContaCorrente" where
  "ContaCorrente_init numero' cliente' limite' limite_saques' =
     \<lparr>saldo = 0, numero = numero', agencia = ''0001'', cliente = cliente',
      historico = Historico_init, limite = limite', limite_saques = limite_saques'\<rparr>"

definition ContaCorrente_nova_conta :: "nat \<Rightarrow> int \<Rightarrow> ContaCorrente" where
  "ContaCorrente_nova_conta cliente' numero' = ContaCorrente_init numero' cliente' 500 3"

subsection \<open>Methods\<close>

text \<open>
  \<open>Historico.adicionar_transacao\<close>: appends one dictionary. The clock reading
  \<open>datetime.now().strftime(...)\<close> is the argument \<open>agora\<close>.
\<close>

definition adicionar_transacao :: "string \<Rightarrow> Transacao \<Rightarrow> Historico \<Rightarrow> Historico" where
  "adicionar_transacao agora transacao self =
     self\<lparr>transacoes := transacoes self @
       [\<lparr>tipo = nome_classe transacao, quantia = transacao_valor transacao, data = agora\<rparr>]\<rparr>"

text \<open>
  \<open>Conta.sacar\<close> and \<open>Conta.depositar\<close>. The result is the returned boolean, the
  printed line and the account after the call. Both are inherited by
  \<open>ContaCorrente\<close>, hence the record scheme.
\<close>

definition Conta_sacar ::
  "int \<Rightarrow> 'a Conta_scheme \<Rightarrow> bool \<times> mensagem \<times> 'a Conta_scheme" where
  "Conta_sacar valor self =
     (if valor \<le> 0 then (False, ValorInvalido, self)
      else if valor > saldo self then (False, SaldoInsuficiente, self)
      else (True, SaqueSucesso, self\<lparr>saldo := saldo self - valor\<rparr>))"

definition Conta_depositar ::
  "int \<Rightarrow> 'a Conta_scheme \<Rightarrow> bool \<times> mensagem \<times> 'a Conta_scheme" where
  "Conta_depositar valor self =
     (if valor \<le> 0 then (False, ValorInvalido, self)
      else (True, DepositoSucesso, self\<lparr>saldo := saldo self + valor\<rparr>))"

text \<open>
  \<open>ContaCorrente.sacar\<close>: the number of history entries whose \<open>tipo\<close> is the name of
  class \<open>Saque\<close>, then the ceiling gate, then the count gate, then \<open>super().sacar\<close>.
\<close>

definition numero_saques :: "'a Conta_scheme \<Rightarrow> nat" where
  "numero_saques self =
     length (filter (\<lambda>t. tipo t = nome_classe (Saque 0)) (transacoes (historico self)))"

definition ContaCorrente_sacar ::
  "int \<Rightarrow> ContaCorrente \<Rightarrow> bool \<times> mensagem \<times> ContaCorrente" where
  "ContaCorrente_sacar valor self =
     (if valor > limite self then (False, AcimaLimite, self)
      else if int (numero_saques self) \<ge> limite_saques self then (False, MaximoSaques, self)
      else Conta_sacar valor self)"

text \<open>
  An account object as a caller holds it: an instance of \<open>Conta\<close> or of
  \<open>ContaCorrente\<close>. \<open>sacar\<close> and \<open>depositar\<close> resolve the method by the class of the
  object, as the calls \<open>conta.sacar(...)\<close> and \<open>conta.depositar(...)\<close> do.
\<close>

datatype objeto = ObjConta Conta | ObjContaCorrente ContaCorrente

fun sacar :: "int \<Rightarrow> objeto \<Rightarrow> bool \<times> mensagem \<times> objeto" where
  "sacar valor (ObjConta c) =
     (case Conta_sacar valor c of (ok, m, c') \<Rightarrow> (ok, m, ObjConta c'))"
| "sacar valor (ObjContaCorrente c) =
     (case ContaCorrente_sacar valor c of (ok, m, c') \<Rightarrow> (ok, m, ObjContaCorrente c'))"

fun depositar :: "int \<Rightarrow> objeto \<Rightarrow> bool \<times> mensagem \<times> objeto" where
  "depositar valor (ObjConta c) =
     (case Conta_depositar valor c of (ok, m, c') \<Rightarrow> (ok, m, ObjConta c'))"
| "depositar valor (ObjContaCorrente c) =
     (case Conta_depositar valor c of (ok, m, c') \<Rightarrow> (ok, m, ObjContaCorrente c'))"

text \<open>The properties \<open>saldo\<close> and \<open>historico\<close> read through an object.\<close>

fun obj_saldo :: "objeto \<Rightarrow> int" where
  "obj_saldo (ObjConta c) = saldo c"
| "obj_saldo (ObjContaCorrente c) = saldo c"

fun obj_historico :: "objeto \<Rightarrow> Historico" where
  "obj_historico (ObjConta c) = historico c"
| "obj_historico (ObjContaCorrente c) = historico c"

text \<open>The in-place update of the history owned by the account.\<close>

fun obj_historico_update :: "(Historico \<Rightarrow> Historico) \<Rightarrow> objeto \<Rightarrow> objeto" where
  "obj_historico_update f (ObjConta c) = ObjConta (c\<lparr>historico := f (historico c)\<rparr>)"
| "obj_historico_update f (ObjContaCorrente c) =
     ObjContaCorrente (c\<lparr>historico := f (historico c)\<rparr>)"

text \<open>
  \<open>Saque.registrar\<close> and \<open>Deposito.registrar\<close>: the account method is called, and
  the transaction is added to the history when it returned \<open>True\<close>. The method returns
  nothing; the model returns the printed line and the account after the call.
\<close>

fun registrar :: "string \<Rightarrow> Transacao \<Rightarrow> objeto \<Rightarrow> mensagem \<times> objeto" where
  "registrar agora (Saque valor) conta =
     (case sacar valor conta of (ok, m, conta') \<Rightarrow>
        (m, if ok then obj_historico_update (adicionar_transacao agora (Saque valor)) conta'
            else conta'))"
| "registrar agora (Deposito valor) conta =
     (case depositar valor conta of (ok, m, conta') \<Rightarrow>
        (m, if ok then obj_historico_update (adicionar_transacao agora (Deposito valor)) conta'
            else conta'))"

text \<open>\<open>Cliente.realizar_transacao\<close> delegates to \<open>transacao.registrar(conta)\<close>.\<close>

definition realizar_transacao :: "string \<Rightarrow> objeto \<Rightarrow> Transacao \<Rightarrow> mensagem \<times> objeto" where
  "realizar_transacao agora conta transacao = registrar agora transacao conta"

subsection \<open>Sequences of calls\<close>

text \<open>
  A caller may invoke the account methods directly or register a transaction. A
  sequence of such calls on one account is run from left to right.
\<close>

datatype chamada = Sacar int | Depositar int | Registrar string Transacao

fun aplicar :: "chamada \<Rightarrow> objeto \<Rightarrow> objeto" where
  "aplicar (Sacar valor) conta = snd (snd (sacar valor conta))"
| "aplicar (Depositar valor) conta = snd (snd (depositar valor conta))"
| "aplicar (Registrar agora transacao) conta = snd (registrar agora transacao conta)"

fun executar :: "chamada list \<Rightarrow> objeto \<Rightarrow> objeto" where
  "executar [] conta = conta"
| "executar (c # cs) conta = executar cs (aplicar c conta)"

subsection \<open>What a sequence of calls is expected to record\<close>

text \<open>
  Whether the account method called by \<open>registrar\<close> for a transaction returns
  \<open>True\<close> on a given account.
\<close>

fun bem_sucedida :: "Transacao \<Rightarrow> objeto \<Rightarrow> bool" where
  "bem_sucedida (Saque valor) conta = fst (sacar valor conta)"
| "bem_sucedida (Deposito valor) conta = fst (depositar valor conta)"

text \<open>
  The records of all registrations requested by a sequence of calls, in the order of
  the requests, whether they succeed or not.
\<close>

fun pedidos :: "chamada list \<Rightarrow> registro list" where
  "pedidos [] = []"
| "pedidos (Registrar agora t # cs) =
     \<lparr>tipo = nome_classe t, quantia = transacao_valor t, data = agora\<rparr> # pedidos cs"
| "pedidos (c # cs) = pedidos cs"

text \<open>
  The records of the registrations that succeed when the sequence is run from the
  given account, in the order in which they are run.
\<close>

fun registros_esperados :: "chamada list \<Rightarrow> objeto \<Rightarrow> registro list" where
  "registros_esperados [] conta = []"
| "registros_esperados (Registrar agora t # cs) conta =
     (if bem_sucedida t conta
      then [\<lparr>tipo = nome_classe t, quantia = transacao_valor t, data = agora\<rparr>] else []) @
     registros_esperados cs (aplicar (Registrar agora t) conta)"
| "registros_esperados (c # cs) conta = registros_esperados cs (aplicar c conta)"

subsection \<open>Explicit account states\<close>

text \<open>
  A checking account created by \<open>ContaCorrente.nova_conta\<close> (ceiling 500, at most 3
  withdrawals) whose balance and list of history entries have become \<open>s\<close> and \<open>h\<close>.
\<close>

abbreviation corrente_com :: "nat \<Rightarrow> int \<Rightarrow> int \<Rightarrow> registro list \<Rightarrow> ContaCorrente" where
  "corrente_com cl n s h \<equiv>
     (ContaCorrente_nova_conta cl n)\<lparr>saldo := s, historico := \<lparr>transacoes = h\<rparr>\<rparr>"

section \<open>The same classes on float amounts\<close>

text \<open>
  The methods of the account accept any Python number. The definitions above read
  them on integers, where the arithmetic is exact. The menu functions \<open>depositar\<close> and
  \<open>sacar\<close> pass \<open>float(input(...))\<close>, a double of IEEE 754 (binary64), and \<open>+=\<close> and
  \<open>-=\<close> on doubles round the exact result to the nearest double, ties to the even
  significand. This section reads the same methods on doubles.
\<close>

subsection \<open>Doubles\<close>

text \<open>
  Every finite double is an integer multiple of \<open>2 ^ -1074\<close>, the least positive
  double. \<open>Finite k\<close> is the number \<open>k / escala\<close>; it is a double when
  \<open>representable k\<close> holds: at most 53 significant bits and a magnitude below
  \<open>2 ^ 1024\<close>. The two zeros are one value, \<open>Finite 0\<close>: every test of the methods
  treats them alike, and no method stores a zero amount. \<open>Finite k\<close> is also used
  for the exact value of a Python integer in a comparison with a double, which Python
  decides exactly.
\<close>

datatype py_float = Finite int | PosInf | NegInf | NaN

definition escala :: int where
  "escala = 2 ^ 1074"

text \<open>\<open>int.bit_length\<close>: the number of binary digits of a positive integer.\<close>

function bit_length :: "int \<Rightarrow> nat" where
  "bit_length n = (if n \<le> 0 then 0 else Suc (bit_length (n div 2)))"
  by pat_completeness auto
termination
  by (relation "measure nat") auto

text \<open>
  The quotient of a non-negative \<open>a\<close> by \<open>2 ^ s\<close>, rounded to the nearest integer,
  a tie going to the even one.
\<close>

definition round_half_even :: "int \<Rightarrow> nat \<Rightarrow> int" where
  "round_half_even a s =
     (let q = a div 2 ^ s; r = a mod 2 ^ s; half = 2 ^ (s - 1)
      in if r < half \<or> (r = half \<and> even q) then q else q + 1)"

text \<open>
  Rounding of an exact result \<open>k / escala\<close> to a double: the value is kept when it has
  at most 53 bits; otherwise the bits below the 53 leading ones are rounded away, and a
  result of magnitude \<open>2 ^ 1024\<close> or more becomes an infinity.
\<close>

definition round_float :: "int \<Rightarrow> py_float" where
  "round_float k =
     (let a = \<bar>k\<bar>; s = bit_length a - 53 in
      if s = 0 then Finite k
      else
        let v = round_half_even a s * 2 ^ s
        in if 2 ^ 1024 * escala \<le> v then (if k < 0 then NegInf else PosInf)
           else Finite (if k < 0 then - v else v))"

definition representable :: "int \<Rightarrow> bool" where
  "representable k \<longleftrightarrow>
     \<bar>k\<bar> < 2 ^ 1024 * escala \<and>
     (bit_length \<bar>k\<bar> \<le> 53 \<or> 2 ^ (bit_length \<bar>k\<bar> - 53) dvd k)"

text \<open>\<open>float(n)\<close> for an integer \<open>n\<close>, which is also the double read from its digits.\<close>

definition float_of_int :: "int \<Rightarrow> py_float" where
  "float_of_int n = round_float (n * escala)"

fun float_neg :: "py_float \<Rightarrow> py_float" where
  "float_neg (Finite a) = Finite (- a)"
| "float_neg PosInf = NegInf"
| "float_neg NegInf = PosInf"
| "float_neg NaN = NaN"

text \<open>\<open>x + y\<close> and \<open>x - y\<close> on doubles.\<close>

fun float_add :: "py_float \<Rightarrow> py_float \<Rightarrow> py_float" where
  "float_add NaN y = NaN"
| "float_add x NaN = NaN"
| "float_add PosInf NegInf = NaN"
| "float_add NegInf PosInf = NaN"
| "float_add PosInf y = PosInf"
| "float_add NegInf y = NegInf"
| "float_add x PosInf = PosInf"
| "float_add x NegInf = NegInf"
| "float_add (Finite a) (Finite b) = round_float (a + b)"

definition float_sub :: "py_float \<Rightarrow> py_float \<Rightarrow> py_float" where
  "float_sub x y = float_add x (float_neg y)"

text \<open>\<open>x < y\<close>, \<open>x <= y\<close> and \<open>x > y\<close>: every comparison with a NaN is false.\<close>

fun float_lt :: "py_float \<Rightarrow> py_float \<Rightarrow> bool" where
  "float_lt NaN y = False"
| "float_lt x NaN = False"
| "float_lt PosInf y = False"
| "float_lt x NegInf = False"
| "float_lt NegInf y = True"
| "float_lt x PosInf = True"
| "float_lt (Finite a) (Finite b) = (a < b)"

fun float_le :: "py_float \<Rightarrow> py_float \<Rightarrow> bool" where
  "float_le NaN y = False"
| "float_le x NaN = False"
| "float_le NegInf y = True"
| "float_le x PosInf = True"
| "float_le PosInf y = False"
| "float_le x NegInf = False"
| "float_le (Finite a) (Finite b) = (a \<le> b)"

definition float_gt :: "py_float \<Rightarrow> py_float \<Rightarrow> bool" where
  "float_gt x y = float_lt y x"

subsection \<open>Data and methods\<close>

text \<open>
  The classes and methods of the first section with amounts and balance of type
  \<open>py_float\<close>; the names carry the suffix \<open>_f\<close>. The initial balance, the integer 0,
  is \<open>Finite 0\<close>. The limits of a checking account stay Python integers.
\<close>

datatype Transacao_f = Saque_f py_float | Deposito_f py_float

fun transacao_valor_f :: "Transacao_f \<Rightarrow> py_float" where
  "transacao_valor_f (Saque_f valor) = valor"
| "transacao_valor_f (Deposito_f valor) = valor"

fun nome_classe_f :: "Transacao_f \<Rightarrow> string" where
  "nome_classe_f (Saque_f valor) = ''Saque''"
| "nome_classe_f (Deposito_f valor) = ''Deposito''"

record registro_f =
  tipo_f :: string
  quantia_f :: py_float
  data_f :: string

record Historico_f =
  transacoes_f :: "registro_f list"

definition Historico_f_init :: Historico_f where
  "Historico_f_init = \<lparr>transacoes_f = []\<rparr>"

record Conta_f =
  saldo_f :: py_float
  numero_f :: int
  agencia_f :: string
  cliente_f :: nat
  historico_f :: Historico_f

record ContaCorrente_f = Conta_f +
  limite_f :: int
  limite_saques_f :: int

definition Conta_f_init :: "int \<Rightarrow> nat \<Rightarrow> Conta_f" where
  "Conta_f_init numero' cliente' =
     \<lparr>saldo_f = Finite 0, numero_f = numero', agencia_f = ''0001'', cliente_f = cliente',
      historico_f = Historico_f_init\<rparr>"

definition ContaCorrente_f_init :: "int \<Rightarrow> nat \<Rightarrow> int \<Rightarrow> int \<Rightarrow> ContaCorrente_f" where
  "ContaCorrente_f_init numero' cliente' limite' limite_saques' =
     \<lparr>saldo_f = Finite 0, numero_f = numero', agencia_f = ''0001'', cliente_f = cliente',
      historico_f = Historico_f_init, limite_f = limite', limite_saques_f = limite_saques'\<rparr>"

definition ContaCorrente_f_nova_conta :: "nat \<Rightarrow> int \<Rightarrow> ContaCorrente_f" where
  "ContaCorrente_f_nova_conta cliente' numero' = ContaCorrente_f_init numero' cliente' 500 3"

definition adicionar_transacao_f :: "string \<Rightarrow> Transacao_f \<Rightarrow> Historico_f \<Rightarrow> Historico_f" where
  "adicionar_transacao_f agora transacao self =
     self\<lparr>transacoes_f := transacoes_f self @
       [\<lparr>tipo_f = nome_classe_f transacao, quantia_f = transacao_valor_f transacao,
         data_f = agora\<rparr>]\<rparr>"

definition Conta_sacar_f ::
  "py_float \<Rightarrow> 'a Conta_f_scheme \<Rightarrow> bool \<times> mensagem \<times> 'a Conta_f_scheme" where
  "Conta_sacar_f valor self =
     (if float_le valor (Finite 0) then (False, ValorInvalido, self)
      else if float_gt valor (saldo_f self) then (False, SaldoInsuficiente, self)
      else (True, SaqueSucesso, self\<lparr>saldo_f := float_sub (saldo_f self) valor\<rparr>))"

definition Conta_depositar_f ::
  "py_float \<Rightarrow> 'a Conta_f_scheme \<Rightarrow> bool \<times> mensagem \<times> 'a Conta_f_scheme" where
  "Conta_depositar_f valor self =
     (if float_le valor (Finite 0) then (False, ValorInvalido, self)
      else (True, DepositoSucesso, self\<lparr>saldo_f := float_add (saldo_f self) valor\<rparr>))"

definition numero_saques_f :: "'a Conta_f_scheme \<Rightarrow> nat" where
  "numero_saques_f self =
     length (filter (\<lambda>t. tipo_f t = nome_classe_f (Saque_f (Finite 0)))
       (transacoes_f (historico_f self)))"

definition ContaCorrente_sacar_f ::
  "py_float \<Rightarrow> ContaCorrente_f \<Rightarrow> bool \<times> mensagem \<times> ContaCorrente_f" where
  "ContaCorrente_sacar_f valor self =
     (if float_gt valor (Finite (limite_f self * escala)) then (False, AcimaLimite, self)
      else if int (numero_saques_f self) \<ge> limite_saques_f self
      then (False, MaximoSaques, self)
      else Conta_sacar_f valor self)"

datatype objeto_f = ObjConta_f Conta_f | ObjContaCorrente_f ContaCorrente_f

fun sacar_f :: "py_float \<Rightarrow> objeto_f \<Rightarrow> bool \<times> mensagem \<times> objeto_f" where
  "sacar_f valor (ObjConta_f c) =
     (case Conta_sacar_f valor c of (ok, m, c') \<Rightarrow> (ok, m, ObjConta_f c'))"
| "sacar_f valor (ObjContaCorrente_f c) =
     (case ContaCorrente_sacar_f valor c of (ok, m, c') \<Rightarrow> (ok, m, ObjContaCorrente_f c'))"

fun depositar_f :: "py_float \<Rightarrow> objeto_f \<Rightarrow> bool \<times> mensagem \<times> objeto_f" where
  "depositar_f valor (ObjConta_f c) =
     (case Conta_depositar_f valor c of (ok, m, c') \<Rightarrow> (ok, m, ObjConta_f c'))"
| "depositar_f valor (ObjContaCorrente_f c) =
     (case Conta_depositar_f valor c of (ok, m, c') \<Rightarrow> (ok, m, ObjContaCorrente_f c'))"

fun obj_saldo_f :: "objeto_f \<Rightarrow> py_float" where
  "obj_saldo_f (ObjConta_f c) = saldo_f c"
| "obj_saldo_f (ObjContaCorrente_f c) = saldo_f c"

fun obj_historico_f :: "objeto_f \<Rightarrow> Historico_f" where
  "obj_historico_f (ObjConta_f c) = historico_f c"
| "obj_historico_f (ObjContaCorrente_f c) = historico_f c"

fun obj_historico_update_f :: "(Historico_f \<Rightarrow> Historico_f) \<Rightarrow> objeto_f \<Rightarrow> objeto_f" where
  "obj_historico_update_f f (ObjConta_f c) = ObjConta_f (c\<lparr>historico_f := f (historico_f c)\<rparr>)"
| "obj_historico_update_f f (ObjContaCorrente_f c) =
     ObjContaCorrente_f (c\<lparr>historico_f := f (historico_f c)\<rparr>)"

fun registrar_f :: "string \<Rightarrow> Transacao_f \<Rightarrow> objeto_f \<Rightarrow> mensagem \<times> objeto_f" where
  "registrar_f agora (Saque_f valor) conta =
     (case sacar_f valor conta of (ok, m, conta') \<Rightarrow>
        (m, if ok
            then obj_historico_update_f (adicionar_transacao_f agora (Saque_f valor)) conta'
            else conta'))"
| "registrar_f agora (Deposito_f valor) conta =
     (case depositar_f valor conta of (ok, m, conta') \<Rightarrow>
        (m, if ok
            then obj_historico_update_f (adicionar_transacao_f agora (Deposito_f valor)) conta'
            else conta'))"

section \<open>Auxiliary facts\<close>

lemma sacar_resultado:
  "sacar valor conta = (ok, m, conta') \<Longrightarrow>
     (\<not> ok \<and> conta' = conta) \<or>
     (ok \<and> m = SaqueSucesso \<and> 0 < valor \<and> valor \<le> obj_saldo conta \<and>
      obj_saldo conta' = obj_saldo conta - valor \<and>
      obj_historico conta' = obj_historico conta)"
  by (cases conta)
    (auto simp: Conta_sacar_def ContaCorrente_sacar_def split: if_splits)

lemma depositar_resultado:
  "depositar valor conta = (ok, m, conta') \<Longrightarrow>
     (\<not> ok \<and> m = ValorInvalido \<and> valor \<le> 0 \<and> conta' = conta) \<or>
     (ok \<and> m = DepositoSucesso \<and> 0 < valor \<and>
      obj_saldo conta' = obj_saldo conta + valor \<and>
      obj_historico conta' = obj_historico conta)"
  by (cases conta) (auto simp: Conta_depositar_def split: if_splits)

lemma obj_saldo_historico_update [simp]:
  "obj_saldo (obj_historico_update f conta) = obj_saldo conta"
  by (cases conta) simp_all

lemma obj_historico_historico_update [simp]:
  "obj_historico (obj_historico_update f conta) = f (obj_historico conta)"
  by (cases conta) simp_all

lemma transacoes_adicionar_transacao [simp]:
  "transacoes (adicionar_transacao agora t h) =
     transacoes h @ [\<lparr>tipo = nome_classe t, quantia = transacao_valor t, data = agora\<rparr>]"
  by (simp add: adicionar_transacao_def)

text \<open>What one registration does, by the outcome of the account method.\<close>

lemma registrar_resultado:
  "registrar agora t conta = (m, conta') \<Longrightarrow>
     (\<not> bem_sucedida t conta \<and> conta' = conta) \<or>
     (bem_sucedida t conta \<and> 0 < transacao_valor t \<and>
      obj_saldo conta' =
        (case t of Saque v \<Rightarrow> obj_saldo conta - v | Deposito v \<Rightarrow> obj_saldo conta + v) \<and>
      (case t of Saque v \<Rightarrow> v \<le> obj_saldo conta | Deposito v \<Rightarrow> True) \<and>
      transacoes (obj_historico conta') = transacoes (obj_historico conta) @
        [\<lparr>tipo = nome_classe t, quantia = transacao_valor t, data = agora\<rparr>])"
proof (cases t)
  case (Saque valor)
  obtain ok m' c' where r: "sacar valor conta = (ok, m', c')"
    by (cases "sacar valor conta") auto
  assume "registrar agora t conta = (m, conta')"
  with sacar_resultado [OF r] Saque r show ?thesis by auto
next
  case (Deposito valor)
  obtain ok m' c' where r: "depositar valor conta = (ok, m', c')"
    by (cases "depositar valor conta") auto
  assume "registrar agora t conta = (m, conta')"
  with depositar_resultado [OF r] Deposito r show ?thesis by auto
qed



text \<open>One call either keeps the history or appends the record of a successful registration.\<close>

lemma aplicar_historico:
  "transacoes (obj_historico (aplicar c conta)) =
     transacoes (obj_historico conta) @ registros_esperados [c] conta"
proof (cases c)
  case (Sacar valor)
  obtain ok m conta' where r: "sacar valor conta = (ok, m, conta')"
    by (cases "sacar valor conta") auto
  with sacar_resultado [OF r] Sacar show ?thesis by auto
next
  case (Depositar valor)
  obtain ok m conta' where r: "depositar valor conta = (ok, m, conta')"
    by (cases "depositar valor conta") auto
  with depositar_resultado [OF r] Depositar show ?thesis by auto
next
  case (Registrar agora t)
  obtain m conta' where r: "registrar agora t conta = (m, conta')"
    by (cases "registrar agora t conta") auto
  with registrar_resultado [OF r] Registrar show ?thesis by auto
qed

lemma registros_esperados_Cons:
  "registros_esperados (c # cs) conta =
     registros_esperados [c] conta @ registros_esperados cs (aplicar c conta)"
  by (cases c) simp_all

lemma executar_historico:
  "transacoes (obj_historico (executar cs conta)) =
     transacoes (obj_historico conta) @ registros_esperados cs conta"
proof (induction cs arbitrary: conta)
  case Nil
  show ?case by simp
next
  case (Cons c cs)
  have "transacoes (obj_historico (executar (c # cs) conta)) =
      transacoes (obj_historico (aplicar c conta)) @ registros_esperados cs (aplicar c conta)"
    using Cons.IH [of "aplicar c conta"] by simp
  also have "\<dots> = transacoes (obj_historico conta) @ registros_esperados (c # cs) conta"
    unfolding aplicar_historico [of c conta] registros_esperados_Cons [of c cs conta] by simp
  finally show ?case .
qed

lemma registros_esperados_subseq: "subseq (registros_esperados cs conta) (pedidos cs)"
proof (induction cs arbitrary: conta)
  case Nil
  show ?case by simp
next
  case (Cons c cs)
  show ?case
  proof (cases c)
    case (Registrar agora t)
    with Cons.IH [of "aplicar c conta"] show ?thesis by auto
  qed (use Cons.IH [of "aplicar c conta"] in simp_all)
qed

section \<open>Facts about doubles\<close>

declare bit_length.simps [simp del]

lemma escala_pos [simp]: "0 < escala"
  by (simp add: escala_def del: power_numeral)

lemma bit_length_eq: "2 ^ b \<le> k \<Longrightarrow> k < 2 ^ Suc b \<Longrightarrow> bit_length k = Suc b"
proof (induction b arbitrary: k)
  case 0
  then have "k = 1" by simp
  then show ?case by (simp add: bit_length.simps)
next
  case (Suc b)
  have "(0::int) < 2 ^ Suc b" by simp
  with Suc.prems(1) have pos: "0 < k" by linarith
  have lo: "2 ^ b \<le> k div 2" using Suc.prems(1) by simp
  have hi: "k div 2 < 2 ^ Suc b" using Suc.prems(2) by simp
  from Suc.IH [OF lo hi] pos show ?case
    by (subst bit_length.simps) simp
qed

lemma bit_length_bounds:
  "0 < n \<Longrightarrow> 2 ^ (n - 1) \<le> k \<Longrightarrow> k < 2 ^ n \<Longrightarrow> bit_length k = n"
  using bit_length_eq [of "n - 1" k] by simp

lemma bit_length_upper: "k < 2 ^ bit_length k"
proof (induction k rule: bit_length.induct)
  case (1 n)
  show ?case
  proof (cases "n \<le> 0")
    case True
    have "(0::int) < 2 ^ bit_length n" by simp
    with True show ?thesis by linarith
  next
    case False
    with 1 have "n div 2 < 2 ^ bit_length (n div 2)" by simp
    then have "n < 2 * 2 ^ bit_length (n div 2)" by linarith
    with False show ?thesis by (subst bit_length.simps) simp
  qed
qed

lemma bit_length_lower: "0 < k \<Longrightarrow> 2 ^ (bit_length k - 1) \<le> k"
proof (induction k rule: bit_length.induct)
  case (1 n)
  show ?case
  proof (cases "n = 1")
    case True
    then show ?thesis by (simp add: bit_length.simps)
  next
    case False
    with "1.prems" have h: "0 < n div 2" by simp
    with 1 have ih: "2 ^ (bit_length (n div 2) - 1) \<le> n div 2" by simp
    from h have "0 < bit_length (n div 2)" by (subst bit_length.simps) simp
    then have e: "bit_length n - 1 = Suc (bit_length (n div 2) - 1)"
      using "1.prems" by (subst bit_length.simps) simp
    from ih have "2 * 2 ^ (bit_length (n div 2) - 1) \<le> n" by linarith
    with e show ?thesis by simp
  qed
qed

lemma bit_length_pos: "0 < k \<Longrightarrow> 0 < bit_length k"
  by (subst bit_length.simps) simp

lemma bit_length_mult_power: "0 < k \<Longrightarrow> bit_length (k * 2 ^ j) = bit_length k + j"
proof (rule bit_length_bounds)
  assume pos: "0 < k"
  from bit_length_pos [OF pos] show "0 < bit_length k + j" by simp
  from bit_length_pos [OF pos] have e: "bit_length k + j - 1 = (bit_length k - 1) + j" by simp
  have "2 ^ (bit_length k - 1) * 2 ^ j \<le> k * (2 ^ j :: int)"
    by (rule mult_right_mono [OF bit_length_lower [OF pos]]) simp
  then show "2 ^ (bit_length k + j - 1) \<le> k * 2 ^ j" unfolding e power_add .
  have "k * 2 ^ j < 2 ^ bit_length k * (2 ^ j :: int)"
    by (rule mult_strict_right_mono [OF bit_length_upper]) simp
  then show "k * 2 ^ j < 2 ^ (bit_length k + j)" unfolding power_add .
qed

lemma round_float_representable: "representable k \<Longrightarrow> round_float k = Finite k"
proof -
  assume rep: "representable k"
  define s where "s = bit_length \<bar>k\<bar> - 53"
  show ?thesis
  proof (cases "s = 0")
    case True
    then show ?thesis by (simp add: round_float_def s_def)
  next
    case False
    with rep have "2 ^ s dvd k" by (simp add: representable_def s_def)
    then have d: "2 ^ s dvd \<bar>k\<bar>" by simp
    then have r: "\<bar>k\<bar> mod 2 ^ s = 0" by (simp add: dvd_eq_mod_eq_0)
    have h: "(0::int) < 2 ^ (s - 1)" by simp
    from r h have q: "round_half_even \<bar>k\<bar> s = \<bar>k\<bar> div 2 ^ s"
      by (simp add: round_half_even_def)
    from d have v: "\<bar>k\<bar> div 2 ^ s * 2 ^ s = \<bar>k\<bar>" by simp
    from rep have b: "\<not> 2 ^ 1024 * escala \<le> \<bar>k\<bar>" unfolding representable_def by linarith
    have "round_float k = Finite (if k < 0 then - \<bar>k\<bar> else \<bar>k\<bar>)"
      unfolding round_float_def Let_def s_def [symmetric] q v using False b
      by (simp only: if_False if_True simp_thms)
    then show ?thesis by (simp add: abs_if)
  qed
qed


lemma round_half_even_scaled:
  assumes "0 < t"
  shows "round_half_even (a * 2 ^ j) (t + j) = round_half_even a t"
proof -
  have c: "(0::int) < 2 ^ j" by simp
  have d: "a * 2 ^ j div 2 ^ (t + j) = a div 2 ^ t"
    by (simp add: power_add)
  have m: "a * 2 ^ j mod 2 ^ (t + j) = (a mod 2 ^ t) * 2 ^ j"
    by (simp add: power_add)
  from assms have "t + j - 1 = (t - 1) + j" by simp
  then have h: "(2::int) ^ (t + j - 1) = 2 ^ (t - 1) * 2 ^ j"
    by (simp only: power_add)
  show ?thesis
    unfolding round_half_even_def Let_def d m h
    using c by (simp only: mult_less_cancel_right_pos mult_cancel_right) simp
qed

lemma round_half_even_le:
  assumes "0 \<le> a" "a < 2 ^ (53 + t)"
  shows "round_half_even a t \<le> 2 ^ 53" and "0 \<le> round_half_even a t"
proof -
  have c: "(0::int) < 2 ^ t" by simp
  from assms(2) have u: "a < 2 ^ 53 * 2 ^ t" by (simp only: power_add)
  have "a div 2 ^ t * 2 ^ t + a mod 2 ^ t = a" by (rule div_mult_mod_eq)
  moreover have "0 \<le> a mod 2 ^ t" by simp
  ultimately have "a div 2 ^ t * 2 ^ t < 2 ^ 53 * 2 ^ t" using u by linarith
  with c have "a div 2 ^ t < 2 ^ 53" by (simp only: mult_less_cancel_right_pos)
  moreover from assms(1) have "0 \<le> a div 2 ^ t"
    by (simp add: pos_imp_zdiv_nonneg_iff)
  ultimately show "round_half_even a t \<le> 2 ^ 53" and "0 \<le> round_half_even a t"
    by (simp_all add: round_half_even_def Let_def del: power_numeral)
qed

lemma bit_length_le_53: "\<bar>n\<bar> < 2 ^ 53 \<Longrightarrow> bit_length \<bar>n\<bar> \<le> 53"
proof (cases "n = 0")
  case True
  then show ?thesis by (simp add: bit_length.simps)
next
  case False
  assume "\<bar>n\<bar> < 2 ^ 53"
  with bit_length_lower [of "\<bar>n\<bar>"] False have "(2::int) ^ (bit_length \<bar>n\<bar> - 1) < 2 ^ 53"
    by simp
  then have "bit_length \<bar>n\<bar> - 1 < 53" by (simp only: power_strict_increasing_iff rel_simps)
  then show ?thesis by simp
qed

lemma float_of_int_round:
  assumes bl: "bit_length \<bar>n\<bar> = 53 + t" and t: "0 < t" "t \<le> 900"
  shows "float_of_int n =
     Finite ((if n < 0 then - 1 else 1) * (round_half_even \<bar>n\<bar> t * 2 ^ t) * escala)"
proof -
  have nz: "n \<noteq> 0"
  proof
    assume "n = 0"
    with bl show False by (simp add: bit_length.simps)
  qed
  then have pos: "0 < \<bar>n\<bar>" by simp
  have ab: "\<bar>n * escala\<bar> = \<bar>n\<bar> * 2 ^ 1074"
    by (simp only: abs_mult abs_of_pos [OF escala_pos]) (simp only: escala_def)
  have len: "bit_length (\<bar>n\<bar> * 2 ^ 1074) - 53 = t + 1074"
    unfolding bit_length_mult_power [OF pos] bl by simp
  from t have s0: "t + 1074 \<noteq> 0" by simp
  define m where "m = round_half_even \<bar>n\<bar> t"
  have rhe: "round_half_even (\<bar>n\<bar> * 2 ^ 1074) (t + 1074) = m"
    unfolding m_def by (rule round_half_even_scaled [OF t(1)])
  have up: "\<bar>n\<bar> < 2 ^ (53 + t)"
    using bit_length_upper [of "\<bar>n\<bar>"] unfolding bl .
  have m53: "m \<le> 2 ^ 53" and m0: "0 \<le> m"
    unfolding m_def using round_half_even_le [OF _ up] by simp_all
  have v: "m * 2 ^ (t + 1074) = m * 2 ^ t * escala"
    by (simp only: power_add escala_def mult.assoc)
  have "m * 2 ^ t \<le> 2 ^ 53 * (2 ^ t :: int)"
    by (rule mult_right_mono [OF m53]) simp
  also have "\<dots> = 2 ^ (53 + t)" by (simp only: power_add)
  also have "\<dots> < (2::int) ^ 1024"
    by (rule power_strict_increasing) (use t in simp_all)
  finally have "m * 2 ^ t * escala < 2 ^ 1024 * escala"
    by (simp only: mult_less_cancel_right_pos escala_pos)
  then have nov: "\<not> 2 ^ 1024 * escala \<le> m * 2 ^ t * escala" by linarith
  have "\<not> escala < 0" using escala_pos by linarith
  then have sg: "n * escala < 0 \<longleftrightarrow> n < 0"
    by (simp add: mult_less_0_iff)
  have "round_float (n * escala) = Finite (if n < 0 then - (m * 2 ^ t * escala) else m * 2 ^ t * escala)"
    unfolding round_float_def Let_def ab len rhe v sg using s0 nov
    by (simp only: if_False if_True simp_thms)
  then show ?thesis unfolding float_of_int_def m_def by simp
qed

lemma float_add_scaled:
  "float_add (Finite (a * escala)) (Finite (b * escala)) = float_of_int (a + b)"
  by (simp only: float_add.simps float_of_int_def distrib_right)

lemma float_sub_scaled:
  "float_sub (Finite (a * escala)) (Finite (b * escala)) = float_of_int (a - b)"
  by (simp add: float_sub_def float_of_int_def left_diff_distrib)

lemma representable_scaled: "\<bar>n\<bar> < 2 ^ 53 \<Longrightarrow> representable (n * escala)"
  unfolding representable_def
proof
  assume small: "\<bar>n\<bar> < 2 ^ 53"
  have "(2::int) ^ 53 \<le> 2 ^ 1024" by (rule power_increasing) simp_all
  with small have "\<bar>n\<bar> < 2 ^ 1024" by linarith
  then show "\<bar>n * escala\<bar> < 2 ^ 1024 * escala"
    by (simp only: abs_mult abs_of_pos [OF escala_pos] mult_less_cancel_right_pos escala_pos)
  show "bit_length \<bar>n * escala\<bar> \<le> 53 \<or> 2 ^ (bit_length \<bar>n * escala\<bar> - 53) dvd n * escala"
  proof (cases "n = 0")
    case True
    then show ?thesis by (simp add: bit_length.simps)
  next
    case False
    then have pos: "0 < \<bar>n\<bar>" by simp
    have "\<bar>n * escala\<bar> = \<bar>n\<bar> * escala"
      by (simp only: abs_mult abs_of_pos [OF escala_pos])
    with bit_length_mult_power [OF pos, of 1074]
    have e: "bit_length \<bar>n * escala\<bar> = bit_length \<bar>n\<bar> + 1074"
      by (simp only: escala_def)
    from bit_length_le_53 [OF small] have "bit_length \<bar>n\<bar> + 1074 - 53 \<le> 1074" by simp
    then have "(2::int) ^ (bit_length \<bar>n\<bar> + 1074 - 53) dvd 2 ^ 1074"
      by (rule le_imp_power_dvd)
    then have "2 ^ (bit_length \<bar>n\<bar> + 1074 - 53) dvd n * escala"
      unfolding escala_def by (rule dvd_mult)
    with e show ?thesis by simp
  qed
qed

lemma float_of_int_exact: "\<bar>n\<bar> < 2 ^ 53 \<Longrightarrow> float_of_int n = Finite (n * escala)"
  unfolding float_of_int_def by (rule round_float_representable [OF representable_scaled])

lemma escala_less [simp]: "a * escala < b * escala \<longleftrightarrow> a < b"
  by (simp only: mult_less_cancel_right_pos escala_pos)

lemma escala_le [simp]: "a * escala \<le> b * escala \<longleftrightarrow> a \<le> b"
  by (simp only: mult_le_cancel_right_pos escala_pos)

lemma escala_le_0 [simp]: "a * escala \<le> 0 \<longleftrightarrow> a \<le> 0"
  using escala_le [of a 0] by simp

lemma escala_less_0 [simp]: "0 < a * escala \<longleftrightarrow> 0 < a"
  using escala_less [of 0 a] by simp

lemma escala_ge_0 [simp]: "0 \<le> a * escala \<longleftrightarrow> 0 \<le> a"
  using escala_le [of 0 a] by simp

lemma escala_lt_0 [simp]: "a * escala < 0 \<longleftrightarrow> a < 0"
  using escala_less [of a 0] by simp

lemma escala_signs [simp]: "\<not> escala \<le> 0" "\<not> escala < 0" "0 \<le> escala"
  using escala_pos by linarith+

lemma escala_diff: "a * escala - b * escala = (a - b) * escala"
  by (simp add: left_diff_distrib)

lemma escala_sum: "a * escala + b * escala = (a + b) * escala"
  by (simp add: distrib_right)

lemma float_gt_not_le: "float_gt x y \<Longrightarrow> \<not> float_le x y"
  by (cases x; cases y) (simp_all add: float_gt_def)

text \<open>The doubles 1e16 - 1.0 and 1e16 + 1.0 are both 1e16.\<close>

lemma float_of_int_1e16:
  "float_of_int 10000000000000000 = Finite (10000000000000000 * escala)"
proof -
  have "bit_length \<bar>10000000000000000\<bar> = 53 + 1"
    by (rule bit_length_bounds) simp_all
  from float_of_int_round [OF this] show ?thesis by (simp add: round_half_even_def)
qed

lemma float_sub_1e16:
  "float_sub (Finite (10000000000000000 * escala)) (Finite escala) =
     Finite (10000000000000000 * escala)"
proof -
  have "bit_length \<bar>9999999999999999\<bar> = 53 + 1"
    by (rule bit_length_bounds) simp_all
  from float_of_int_round [OF this]
  have "float_of_int 9999999999999999 = Finite (10000000000000000 * escala)"
    by (simp add: round_half_even_def)
  with float_sub_scaled [of 10000000000000000 1] show ?thesis by simp
qed

lemma float_add_1e16:
  "float_add (Finite (10000000000000000 * escala)) (Finite escala) =
     Finite (10000000000000000 * escala)"
proof -
  have "bit_length \<bar>10000000000000001\<bar> = 53 + 1"
    by (rule bit_length_bounds) simp_all
  from float_of_int_round [OF this]
  have "float_of_int 10000000000000001 = Finite (10000000000000000 * escala)"
    by (simp add: round_half_even_def)
  then show ?thesis by (simp add: float_of_int_def)
qed

text \<open>The outcome of the account methods on doubles.\<close>

lemma sacar_f_resultado:
  "sacar_f valor conta = (ok, m, conta') \<Longrightarrow>
     (\<not> ok \<and> conta' = conta) \<or>
     (ok \<and> m = SaqueSucesso \<and> \<not> float_le valor (Finite 0) \<and>
      \<not> float_gt valor (obj_saldo_f conta) \<and>
      obj_saldo_f conta' = float_sub (obj_saldo_f conta) valor \<and>
      obj_historico_f conta' = obj_historico_f conta)"
  by (cases conta)
    (auto simp: Conta_sacar_f_def ContaCorrente_sacar_f_def split: if_splits)

lemma depositar_f_resultado:
  "depositar_f valor conta = (ok, m, conta') \<Longrightarrow>
     (\<not> ok \<and> m = ValorInvalido \<and> float_le valor (Finite 0) \<and> conta' = conta) \<or>
     (ok \<and> m = DepositoSucesso \<and> \<not> float_le valor (Finite 0) \<and>
      obj_saldo_f conta' = float_add (obj_saldo_f conta) valor \<and>
      obj_historico_f conta' = obj_historico_f conta)"
  by (cases conta) (auto simp: Conta_depositar_f_def split: if_splits)

lemma obj_saldo_f_historico_update [simp]:
  "obj_saldo_f (obj_historico_update_f f conta) = obj_saldo_f conta"
  by (cases conta) simp_all

lemma obj_historico_f_historico_update [simp]:
  "obj_historico_f (obj_historico_update_f f conta) = f (obj_historico_f conta)"
  by (cases conta) simp_all

lemma transacoes_f_adicionar_transacao [simp]:
  "transacoes_f (adicionar_transacao_f agora t h) =
     transacoes_f h @
       [\<lparr>tipo_f = nome_classe_f t, quantia_f = transacao_valor_f t, data_f = agora\<rparr>]"
  by (simp add: adicionar_transacao_f_def)

lemma float_sub_exact:
  "representable (a - b) \<Longrightarrow> float_sub (Finite a) (Finite b) = Finite (a - b)"
  by (simp add: float_sub_def round_float_representable)

lemma float_add_exact:
  "representable (a + b) \<Longrightarrow> float_add (Finite a) (Finite b) = Finite (a + b)"
  by (simp add: round_float_representable)

section \<open>Base account\<close>

text \<open>
  C7 (as stated). The claim promises that a successful withdrawal lowers the balance by
  exactly the amount. On a base account holding 1e16, reached by one deposit on a new
  account, the withdrawal of 1.0 passes both checks and returns \<open>True\<close>, and the
  account after it is the account before it: the difference is rounded back to 1e16.
\<close>

theorem Conta_sacar_counterexample:
  "depositar_f (float_of_int 10000000000000000) (ObjConta_f (Conta_f_init 1 0)) =
     (True, DepositoSucesso,
      ObjConta_f ((Conta_f_init 1 0)\<lparr>saldo_f := float_of_int 10000000000000000\<rparr>)) \<and>
   \<not> float_le (float_of_int 1) (Finite 0) \<and>
   sacar_f (float_of_int 1)
     (ObjConta_f ((Conta_f_init 1 0)\<lparr>saldo_f := float_of_int 10000000000000000\<rparr>)) =
     (True, SaqueSucesso,
      ObjConta_f ((Conta_f_init 1 0)\<lparr>saldo_f := float_of_int 10000000000000000\<rparr>))"
proof -
  have one: "float_of_int 1 = Finite (1 * escala)"
    by (rule float_of_int_exact) simp
  have zero: "round_float (10000000000000000 * escala) = Finite (10000000000000000 * escala)"
    using float_of_int_1e16 by (simp only: float_of_int_def)
  show ?thesis
    unfolding one float_of_int_1e16
    by (simp add: Conta_f_init_def Conta_sacar_f_def Conta_depositar_f_def float_gt_def
        float_sub_1e16 zero)
qed

text \<open>
  C7 (amended). On a base account, \<open>sacar\<close> checks in order: a non-positive amount fails
  with the invalid-amount line, whatever the balance; otherwise an amount above the
  balance fails with the insufficient-funds line; otherwise the call returns \<open>True\<close> and
  the balance becomes the difference of balance and amount as Python computes it. For
  integers that is exactly the balance less the amount. For doubles it is the exact
  difference rounded to the nearest double: exactly the balance less the amount whenever
  that number is a double, and otherwise a neighbour of it, which can be the old balance.
  On either failure the account is returned as it was.
\<close>

theorem Conta_sacar_ordem_arredondado:
  "(float_le valor (Finite 0) \<longrightarrow>
      sacar_f valor (ObjConta_f c) = (False, ValorInvalido, ObjConta_f c)) \<and>
   (\<not> float_le valor (Finite 0) \<and> float_gt valor (saldo_f c) \<longrightarrow>
      sacar_f valor (ObjConta_f c) = (False, SaldoInsuficiente, ObjConta_f c)) \<and>
   (\<not> float_le valor (Finite 0) \<and> \<not> float_gt valor (saldo_f c) \<longrightarrow>
      sacar_f valor (ObjConta_f c) =
        (True, SaqueSucesso, ObjConta_f (c\<lparr>saldo_f := float_sub (saldo_f c) valor\<rparr>))) \<and>
   (saldo_f c = Finite a \<and> valor = Finite b \<and> 0 < b \<and> b \<le> a \<and> representable (a - b) \<longrightarrow>
      sacar_f valor (ObjConta_f c) =
        (True, SaqueSucesso, ObjConta_f (c\<lparr>saldo_f := Finite (a - b)\<rparr>))) \<and>
   (n \<le> 0 \<longrightarrow> sacar n (ObjConta d) = (False, ValorInvalido, ObjConta d)) \<and>
   (0 < n \<and> saldo d < n \<longrightarrow> sacar n (ObjConta d) = (False, SaldoInsuficiente, ObjConta d)) \<and>
   (0 < n \<and> n \<le> saldo d \<longrightarrow>
      sacar n (ObjConta d) = (True, SaqueSucesso, ObjConta (d\<lparr>saldo := saldo d - n\<rparr>)))"
  by (simp add: Conta_sacar_f_def Conta_sacar_def float_gt_def float_sub_exact)

theorem Conta_sacar_ordem_arredondado_witness:
  "sacar_f (Finite (- 5 * escala)) (ObjConta_f (Conta_f_init 1 0)) =
     (False, ValorInvalido, ObjConta_f (Conta_f_init 1 0)) \<and>
   sacar_f (Finite (30 * escala)) (ObjConta_f (Conta_f_init 1 0)) =
     (False, SaldoInsuficiente, ObjConta_f (Conta_f_init 1 0)) \<and>
   sacar_f (Finite (30 * escala))
     (ObjConta_f ((Conta_f_init 1 0)\<lparr>saldo_f := Finite (100 * escala)\<rparr>)) =
     (True, SaqueSucesso, ObjConta_f ((Conta_f_init 1 0)\<lparr>saldo_f := Finite (70 * escala)\<rparr>)) \<and>
   sacar (- 5) (ObjConta ((Conta_init 1 0)\<lparr>saldo := - 10\<rparr>)) =
     (False, ValorInvalido, ObjConta ((Conta_init 1 0)\<lparr>saldo := - 10\<rparr>)) \<and>
   sacar 30 (ObjConta (Conta_init 1 0)) = (False, SaldoInsuficiente, ObjConta (Conta_init 1 0)) \<and>
   sacar 30 (ObjConta ((Conta_init 1 0)\<lparr>saldo := 100\<rparr>)) =
     (True, SaqueSucesso, ObjConta ((Conta_init 1 0)\<lparr>saldo := 70\<rparr>))"
proof -
  have r: "representable (70 * escala)"
    by (rule representable_scaled) simp
  show ?thesis
    using r
      Conta_sacar_ordem_arredondado [of "Finite (- 5 * escala)" "Conta_f_init 1 0"
        "0" "- 5 * escala" "- 5" "(Conta_init 1 0)\<lparr>saldo := - 10\<rparr>"]
      Conta_sacar_ordem_arredondado [of "Finite (30 * escala)" "Conta_f_init 1 0"
        "0" "30 * escala" 30 "Conta_init 1 0"]
      Conta_sacar_ordem_arredondado [of "Finite (30 * escala)"
        "(Conta_f_init 1 0)\<lparr>saldo_f := Finite (100 * escala)\<rparr>"
        "100 * escala" "30 * escala" 30 "(Conta_init 1 0)\<lparr>saldo := 100\<rparr>"]
    by (simp add: Conta_f_init_def Conta_init_def Conta_sacar_f_def Conta_sacar_def
        float_gt_def float_sub_scaled float_of_int_exact)
qed

text \<open>
  C6 (as stated). The claim promises that a deposit of \<open>a > 0\<close> raises the balance by
  exactly \<open>a\<close>. On an account holding 1e16 the deposit of 1.0 returns \<open>True\<close> and the
  account after it is the account before it: the sum is rounded back to 1e16.
\<close>

theorem depositar_counterexample:
  "float_gt (float_of_int 1) (Finite 0) \<and>
   depositar_f (float_of_int 1)
     (ObjConta_f ((Conta_f_init 1 0)\<lparr>saldo_f := float_of_int 10000000000000000\<rparr>)) =
     (True, DepositoSucesso,
      ObjConta_f ((Conta_f_init 1 0)\<lparr>saldo_f := float_of_int 10000000000000000\<rparr>))"
proof -
  have one: "float_of_int 1 = Finite (1 * escala)"
    by (rule float_of_int_exact) simp
  show ?thesis
    unfolding one float_of_int_1e16
    using float_add_1e16 by (simp add: Conta_f_init_def Conta_depositar_f_def float_gt_def)
qed

text \<open>
  C6 (amended). For every account and every amount \<open>a\<close>: if \<open>a > 0\<close>, the deposit
  succeeds and the balance becomes the sum of balance and \<open>a\<close> as Python computes it
  (registered through \<open>Deposito.registrar\<close>, one deposit record is appended as well).
  For integers that is exactly the balance plus \<open>a\<close>. For doubles it is the exact sum
  rounded to the nearest double: exactly the balance plus \<open>a\<close> whenever that number is
  a double, and otherwise a neighbour of it, which can be the old balance. If
  \<open>a \<le> 0\<close>, the deposit reports failure and both the balance and the history are left
  as they were.
\<close>

theorem depositar_arredondado:
  "(float_gt a (Finite 0) \<longrightarrow>
      fst (depositar_f a conta) \<and>
      obj_saldo_f (snd (snd (depositar_f a conta))) = float_add (obj_saldo_f conta) a \<and>
      obj_historico_f (snd (snd (depositar_f a conta))) = obj_historico_f conta \<and>
      obj_saldo_f (snd (registrar_f agora (Deposito_f a) conta)) =
        float_add (obj_saldo_f conta) a \<and>
      transacoes_f (obj_historico_f (snd (registrar_f agora (Deposito_f a) conta))) =
        transacoes_f (obj_historico_f conta) @
          [\<lparr>tipo_f = ''Deposito'', quantia_f = a, data_f = agora\<rparr>]) \<and>
   (obj_saldo_f conta = Finite s \<and> a = Finite b \<and> 0 < b \<and> representable (s + b) \<longrightarrow>
      fst (depositar_f a conta) \<and>
      obj_saldo_f (snd (snd (depositar_f a conta))) = Finite (s + b)) \<and>
   (float_le a (Finite 0) \<longrightarrow>
      depositar_f a conta = (False, ValorInvalido, conta) \<and>
      registrar_f agora (Deposito_f a) conta = (ValorInvalido, conta)) \<and>
   (0 < n \<longrightarrow>
      fst (depositar n conta_i) \<and>
      obj_saldo (snd (snd (depositar n conta_i))) = obj_saldo conta_i + n \<and>
      obj_historico (snd (snd (depositar n conta_i))) = obj_historico conta_i \<and>
      obj_saldo (snd (registrar agora (Deposito n) conta_i)) = obj_saldo conta_i + n \<and>
      transacoes (obj_historico (snd (registrar agora (Deposito n) conta_i))) =
        transacoes (obj_historico conta_i) @
          [\<lparr>tipo = ''Deposito'', quantia = n, data = agora\<rparr>]) \<and>
   (n \<le> 0 \<longrightarrow>
      depositar n conta_i = (False, ValorInvalido, conta_i) \<and>
      registrar agora (Deposito n) conta_i = (ValorInvalido, conta_i))"
proof -
  have fl: "float_gt a (Finite 0) \<longrightarrow>
      fst (depositar_f a conta) \<and>
      obj_saldo_f (snd (snd (depositar_f a conta))) = float_add (obj_saldo_f conta) a \<and>
      obj_historico_f (snd (snd (depositar_f a conta))) = obj_historico_f conta \<and>
      obj_saldo_f (snd (registrar_f agora (Deposito_f a) conta)) =
        float_add (obj_saldo_f conta) a \<and>
      transacoes_f (obj_historico_f (snd (registrar_f agora (Deposito_f a) conta))) =
        transacoes_f (obj_historico_f conta) @
          [\<lparr>tipo_f = ''Deposito'', quantia_f = a, data_f = agora\<rparr>]"
    by (cases conta) (auto simp: Conta_depositar_f_def dest: float_gt_not_le)
  have ex: "obj_saldo_f conta = Finite s \<and> a = Finite b \<and> 0 < b \<and> representable (s + b) \<longrightarrow>
      fst (depositar_f a conta) \<and>
      obj_saldo_f (snd (snd (depositar_f a conta))) = Finite (s + b)"
    by (cases conta) (auto simp: Conta_depositar_f_def round_float_representable)
  have fa: "float_le a (Finite 0) \<longrightarrow>
      depositar_f a conta = (False, ValorInvalido, conta) \<and>
      registrar_f agora (Deposito_f a) conta = (ValorInvalido, conta)"
    by (cases conta) (simp_all add: Conta_depositar_f_def)
  have i1: "0 < n \<longrightarrow>
      fst (depositar n conta_i) \<and>
      obj_saldo (snd (snd (depositar n conta_i))) = obj_saldo conta_i + n \<and>
      obj_historico (snd (snd (depositar n conta_i))) = obj_historico conta_i \<and>
      obj_saldo (snd (registrar agora (Deposito n) conta_i)) = obj_saldo conta_i + n \<and>
      transacoes (obj_historico (snd (registrar agora (Deposito n) conta_i))) =
        transacoes (obj_historico conta_i) @
          [\<lparr>tipo = ''Deposito'', quantia = n, data = agora\<rparr>]"
    by (cases conta_i) (simp_all add: Conta_depositar_def)
  have i2: "n \<le> 0 \<longrightarrow>
      depositar n conta_i = (False, ValorInvalido, conta_i) \<and>
      registrar agora (Deposito n) conta_i = (ValorInvalido, conta_i)"
    by (cases conta_i) (simp_all add: Conta_depositar_def)
  from fl ex fa i1 i2 show ?thesis by blast
qed

theorem depositar_arredondado_witness:
  "fst (depositar_f (Finite (100 * escala)) (ObjConta_f (Conta_f_init 1 0))) \<and>
   obj_saldo_f (snd (snd (depositar_f (Finite (100 * escala)) (ObjConta_f (Conta_f_init 1 0))))) =
     Finite (100 * escala) \<and>
   transacoes_f (obj_historico_f (snd (registrar_f ''04-11-2026 10:00:00''
      (Deposito_f (Finite (100 * escala))) (ObjConta_f (Conta_f_init 1 0))))) =
     [\<lparr>tipo_f = ''Deposito'', quantia_f = Finite (100 * escala),
       data_f = ''04-11-2026 10:00:00''\<rparr>] \<and>
   depositar_f (Finite 0) (ObjContaCorrente_f (ContaCorrente_f_nova_conta 0 1)) =
     (False, ValorInvalido, ObjContaCorrente_f (ContaCorrente_f_nova_conta 0 1)) \<and>
   obj_saldo (snd (snd (depositar 100 (ObjConta (Conta_init 1 0))))) = 100 \<and>
   registrar ''04-11-2026 10:00:00'' (Deposito (- 7))
      (ObjContaCorrente (ContaCorrente_nova_conta 0 1)) =
     (ValorInvalido, ObjContaCorrente (ContaCorrente_nova_conta 0 1))"
proof -
  have r: "representable (100 * escala)"
    by (rule representable_scaled) simp
  show ?thesis
    using r
      depositar_arredondado [of "Finite (100 * escala)" "ObjConta_f (Conta_f_init 1 0)"
        "''04-11-2026 10:00:00''" 0 "100 * escala" 100 "ObjConta (Conta_init 1 0)"]
      depositar_arredondado [of "Finite 0" "ObjContaCorrente_f (ContaCorrente_f_nova_conta 0 1)"
        "''04-11-2026 10:00:00''" 0 0 "- 7" "ObjContaCorrente (ContaCorrente_nova_conta 0 1)"]
    by (simp add: Conta_f_init_def Conta_init_def Historico_f_init_def Historico_init_def
        Conta_depositar_f_def Conta_depositar_def float_gt_def round_float_representable)
qed

section \<open>Checking account\<close>

text \<open>
  C4. On every checking account, a withdrawal of an amount strictly above the
  per-transaction ceiling fails with the above-the-limit line, whatever the balance and
  whatever the number of withdrawals already recorded (the ceiling gate comes before the
  count gate and before the base checks), and the account, balance and history
  included, is left as it was. A new checking account has the ceiling 500.
\<close>

theorem ContaCorrente_sacar_acima_limite:
  "(limite c < valor \<longrightarrow>
      ContaCorrente_sacar valor c = (False, AcimaLimite, c) \<and>
      sacar valor (ObjContaCorrente c) = (False, AcimaLimite, ObjContaCorrente c) \<and>
      registrar agora (Saque valor) (ObjContaCorrente c) = (AcimaLimite, ObjContaCorrente c)) \<and>
   limite (ContaCorrente_nova_conta cl n) = 500"
  by (simp add: ContaCorrente_sacar_def ContaCorrente_nova_conta_def ContaCorrente_init_def)

theorem ContaCorrente_sacar_acima_limite_witness:
  "sacar 600 (ObjContaCorrente ((ContaCorrente_nova_conta 0 1)
      \<lparr>saldo := 1000, historico := \<lparr>transacoes =
         [\<lparr>tipo = ''Saque'', quantia = 1, data = ''a''\<rparr>,
          \<lparr>tipo = ''Saque'', quantia = 1, data = ''b''\<rparr>,
          \<lparr>tipo = ''Saque'', quantia = 1, data = ''c''\<rparr>]\<rparr>\<rparr>)) =
    (False, AcimaLimite, ObjContaCorrente ((ContaCorrente_nova_conta 0 1)
      \<lparr>saldo := 1000, historico := \<lparr>transacoes =
         [\<lparr>tipo = ''Saque'', quantia = 1, data = ''a''\<rparr>,
          \<lparr>tipo = ''Saque'', quantia = 1, data = ''b''\<rparr>,
          \<lparr>tipo = ''Saque'', quantia = 1, data = ''c''\<rparr>]\<rparr>\<rparr>))"
  using ContaCorrente_sacar_acima_limite [of "(ContaCorrente_nova_conta 0 1)
      \<lparr>saldo := 1000, historico := \<lparr>transacoes =
         [\<lparr>tipo = ''Saque'', quantia = 1, data = ''a''\<rparr>,
          \<lparr>tipo = ''Saque'', quantia = 1, data = ''b''\<rparr>,
          \<lparr>tipo = ''Saque'', quantia = 1, data = ''c''\<rparr>]\<rparr>\<rparr>" 600 "''d''" 0 1]
  by (simp add: ContaCorrente_nova_conta_def ContaCorrente_init_def)

text \<open>
  C10. On every checking account whose history already holds the maximum number of
  withdrawal records, a withdrawal of an amount that does not exceed the ceiling, a
  non-positive one included, is rejected by the count gate: the line printed is the
  maximum-withdrawals one, not the invalid-amount one. The base positivity check is
  reached only after both gates of the checking account have passed.
\<close>

theorem ContaCorrente_sacar_no_maximo:
  "(limite_saques c \<le> int (numero_saques c) \<and> valor \<le> limite c \<longrightarrow>
      sacar valor (ObjContaCorrente c) = (False, MaximoSaques, ObjContaCorrente c)) \<and>
   (limite_saques c \<le> int (numero_saques c) \<and> valor \<le> 0 \<and> 0 \<le> limite c \<longrightarrow>
      fst (snd (sacar valor (ObjContaCorrente c))) = MaximoSaques) \<and>
   (fst (snd (sacar valor (ObjContaCorrente c))) = ValorInvalido \<longrightarrow>
      valor \<le> 0 \<and> valor \<le> limite c \<and> int (numero_saques c) < limite_saques c)"
  by (simp add: ContaCorrente_sacar_def Conta_sacar_def)

theorem ContaCorrente_sacar_no_maximo_witness:
  "sacar 0 (ObjContaCorrente (corrente_com 0 1 850
      [\<lparr>tipo = ''Deposito'', quantia = 1000, data = ''t1''\<rparr>,
       \<lparr>tipo = ''Saque'', quantia = 50, data = ''t2''\<rparr>,
       \<lparr>tipo = ''Saque'', quantia = 50, data = ''t3''\<rparr>,
       \<lparr>tipo = ''Saque'', quantia = 50, data = ''t4''\<rparr>])) =
    (False, MaximoSaques, ObjContaCorrente (corrente_com 0 1 850
      [\<lparr>tipo = ''Deposito'', quantia = 1000, data = ''t1''\<rparr>,
       \<lparr>tipo = ''Saque'', quantia = 50, data = ''t2''\<rparr>,
       \<lparr>tipo = ''Saque'', quantia = 50, data = ''t3''\<rparr>,
       \<lparr>tipo = ''Saque'', quantia = 50, data = ''t4''\<rparr>])) \<and>
   fst (snd (sacar (-5) (ObjContaCorrente (corrente_com 0 1 0 [])))) = ValorInvalido \<and>
   int (numero_saques (corrente_com 0 1 0 [])) < limite_saques (corrente_com 0 1 0 [])"
  using ContaCorrente_sacar_no_maximo [of "corrente_com 0 1 850
      [\<lparr>tipo = ''Deposito'', quantia = 1000, data = ''t1''\<rparr>,
       \<lparr>tipo = ''Saque'', quantia = 50, data = ''t2''\<rparr>,
       \<lparr>tipo = ''Saque'', quantia = 50, data = ''t3''\<rparr>,
       \<lparr>tipo = ''Saque'', quantia = 50, data = ''t4''\<rparr>]" 0]
    ContaCorrente_sacar_no_maximo [of "corrente_com 0 1 0 []" "-5"]
  by (simp add: ContaCorrente_nova_conta_def ContaCorrente_init_def numero_saques_def
      ContaCorrente_sacar_def Conta_sacar_def)

text \<open>
  C3 (as stated). The claim promises the maximum-withdrawals line for every amount once
  the history holds 3 withdrawals. After a deposit of 1000 and three registered
  withdrawals of 50 the count equals the maximum, and a withdrawal of 600 is answered
  with the above-the-limit line instead: the ceiling gate is evaluated first.
\<close>

theorem ContaCorrente_maximo_counterexample:
  "executar [Registrar ''t1'' (Deposito 1000), Registrar ''t2'' (Saque 50),
       Registrar ''t3'' (Saque 50), Registrar ''t4'' (Saque 50)]
     (ObjContaCorrente (ContaCorrente_nova_conta 0 1)) =
     ObjContaCorrente (corrente_com 0 1 850
      [\<lparr>tipo = ''Deposito'', quantia = 1000, data = ''t1''\<rparr>,
       \<lparr>tipo = ''Saque'', quantia = 50, data = ''t2''\<rparr>,
       \<lparr>tipo = ''Saque'', quantia = 50, data = ''t3''\<rparr>,
       \<lparr>tipo = ''Saque'', quantia = 50, data = ''t4''\<rparr>]) \<and>
   int (numero_saques (corrente_com 0 1 850
      [\<lparr>tipo = ''Deposito'', quantia = 1000, data = ''t1''\<rparr>,
       \<lparr>tipo = ''Saque'', quantia = 50, data = ''t2''\<rparr>,
       \<lparr>tipo = ''Saque'', quantia = 50, data = ''t3''\<rparr>,
       \<lparr>tipo = ''Saque'', quantia = 50, data = ''t4''\<rparr>])) = 3 \<and>
   limite_saques (corrente_com 0 1 850
      [\<lparr>tipo = ''Deposito'', quantia = 1000, data = ''t1''\<rparr>,
       \<lparr>tipo = ''Saque'', quantia = 50, data = ''t2''\<rparr>,
       \<lparr>tipo = ''Saque'', quantia = 50, data = ''t3''\<rparr>,
       \<lparr>tipo = ''Saque'', quantia = 50, data = ''t4''\<rparr>]) = 3 \<and>
   fst (snd (sacar 600 (ObjContaCorrente (corrente_com 0 1 850
      [\<lparr>tipo = ''Deposito'', quantia = 1000, data = ''t1''\<rparr>,
       \<lparr>tipo = ''Saque'', quantia = 50, data = ''t2''\<rparr>,
       \<lparr>tipo = ''Saque'', quantia = 50, data = ''t3''\<rparr>,
       \<lparr>tipo = ''Saque'', quantia = 50, data = ''t4''\<rparr>])))) = AcimaLimite \<and>
   AcimaLimite \<noteq> MaximoSaques"
  by (simp add: ContaCorrente_nova_conta_def ContaCorrente_init_def Historico_init_def
      numero_saques_def ContaCorrente_sacar_def Conta_sacar_def Conta_depositar_def
      adicionar_transacao_def)

text \<open>
  C3 (amended). On every checking account whose history holds exactly the maximum
  number of withdrawal records, any further withdrawal, for every amount and every
  balance, fails and leaves the account as it was: with the above-the-limit line when
  the amount exceeds the ceiling, with the maximum-withdrawals line otherwise. A
  registration whose withdrawal is rejected, by whichever check, leaves the number of
  withdrawal records as it was; one that succeeds raises it by one.
\<close>

theorem ContaCorrente_maximo_saques:
  "(int (numero_saques c) = limite_saques c \<longrightarrow>
      sacar valor (ObjContaCorrente c) =
        (False, if limite c < valor then AcimaLimite else MaximoSaques, ObjContaCorrente c) \<and>
      registrar agora (Saque valor) (ObjContaCorrente c) =
        (if limite c < valor then AcimaLimite else MaximoSaques, ObjContaCorrente c)) \<and>
   (\<not> fst (ContaCorrente_sacar valor c) \<longrightarrow>
      registrar agora (Saque valor) (ObjContaCorrente c) =
        (fst (snd (ContaCorrente_sacar valor c)), ObjContaCorrente c)) \<and>
   (fst (ContaCorrente_sacar valor c) \<longrightarrow>
      (\<exists>c'. snd (registrar agora (Saque valor) (ObjContaCorrente c)) = ObjContaCorrente c' \<and>
         numero_saques c' = Suc (numero_saques c)))"
  by (simp add: ContaCorrente_sacar_def Conta_sacar_def numero_saques_def adicionar_transacao_def)

theorem ContaCorrente_maximo_saques_witness:
  "sacar 1 (ObjContaCorrente (corrente_com 0 1 850
      [\<lparr>tipo = ''Deposito'', quantia = 1000, data = ''t1''\<rparr>,
       \<lparr>tipo = ''Saque'', quantia = 50, data = ''t2''\<rparr>,
       \<lparr>tipo = ''Saque'', quantia = 50, data = ''t3''\<rparr>,
       \<lparr>tipo = ''Saque'', quantia = 50, data = ''t4''\<rparr>])) =
    (False, MaximoSaques, ObjContaCorrente (corrente_com 0 1 850
      [\<lparr>tipo = ''Deposito'', quantia = 1000, data = ''t1''\<rparr>,
       \<lparr>tipo = ''Saque'', quantia = 50, data = ''t2''\<rparr>,
       \<lparr>tipo = ''Saque'', quantia = 50, data = ''t3''\<rparr>,
       \<lparr>tipo = ''Saque'', quantia = 50, data = ''t4''\<rparr>])) \<and>
   registrar ''t1'' (Saque 30) (ObjContaCorrente (corrente_com 0 1 0 [])) =
     (SaldoInsuficiente, ObjContaCorrente (corrente_com 0 1 0 [])) \<and>
   (\<exists>c'. snd (registrar ''t2'' (Saque 30) (ObjContaCorrente (corrente_com 0 1 100
        [\<lparr>tipo = ''Deposito'', quantia = 100, data = ''t1''\<rparr>]))) = ObjContaCorrente c' \<and>
      numero_saques c' = 1)"
  using ContaCorrente_maximo_saques [of "corrente_com 0 1 850
      [\<lparr>tipo = ''Deposito'', quantia = 1000, data = ''t1''\<rparr>,
       \<lparr>tipo = ''Saque'', quantia = 50, data = ''t2''\<rparr>,
       \<lparr>tipo = ''Saque'', quantia = 50, data = ''t3''\<rparr>,
       \<lparr>tipo = ''Saque'', quantia = 50, data = ''t4''\<rparr>]" 1 "''t5''"]
    ContaCorrente_maximo_saques [of "corrente_com 0 1 0 []" 30 "''t1''"]
    ContaCorrente_maximo_saques [of "corrente_com 0 1 100
        [\<lparr>tipo = ''Deposito'', quantia = 100, data = ''t1''\<rparr>]" 30 "''t2''"]
  by (simp add: ContaCorrente_nova_conta_def ContaCorrente_init_def numero_saques_def
      ContaCorrente_sacar_def Conta_sacar_def)

text \<open>
  C5 (as stated). The scenario promises that three further withdrawals of 50 succeed
  after the rejected withdrawal of 600. The first of them empties the account; the
  second is answered with the insufficient-funds line and changes nothing, and the final
  withdrawal of 1 is answered with the same line, not with the maximum-withdrawals one:
  only two withdrawals are recorded at that point.
\<close>

theorem cenario_counterexample:
  "executar [Registrar ''t1'' (Deposito 100), Registrar ''t2'' (Saque 50),
       Registrar ''t3'' (Saque 600), Registrar ''t4'' (Saque 50)]
     (ObjContaCorrente (ContaCorrente_nova_conta 0 1)) =
     ObjContaCorrente (corrente_com 0 1 0
      [\<lparr>tipo = ''Deposito'', quantia = 100, data = ''t1''\<rparr>,
       \<lparr>tipo = ''Saque'', quantia = 50, data = ''t2''\<rparr>,
       \<lparr>tipo = ''Saque'', quantia = 50, data = ''t4''\<rparr>]) \<and>
   sacar 50 (ObjContaCorrente (corrente_com 0 1 0
      [\<lparr>tipo = ''Deposito'', quantia = 100, data = ''t1''\<rparr>,
       \<lparr>tipo = ''Saque'', quantia = 50, data = ''t2''\<rparr>,
       \<lparr>tipo = ''Saque'', quantia = 50, data = ''t4''\<rparr>])) =
     (False, SaldoInsuficiente, ObjContaCorrente (corrente_com 0 1 0
      [\<lparr>tipo = ''Deposito'', quantia = 100, data = ''t1''\<rparr>,
       \<lparr>tipo = ''Saque'', quantia = 50, data = ''t2''\<rparr>,
       \<lparr>tipo = ''Saque'', quantia = 50, data = ''t4''\<rparr>])) \<and>
   fst (snd (sacar 1 (executar [Registrar ''t1'' (Deposito 100), Registrar ''t2'' (Saque 50),
       Registrar ''t3'' (Saque 600), Registrar ''t4'' (Saque 50), Registrar ''t5'' (Saque 50),
       Registrar ''t6'' (Saque 50)]
     (ObjContaCorrente (ContaCorrente_nova_conta 0 1))))) = SaldoInsuficiente \<and>
   SaldoInsuficiente \<noteq> MaximoSaques"
  by (simp add: ContaCorrente_nova_conta_def ContaCorrente_init_def Historico_init_def
      numero_saques_def ContaCorrente_sacar_def Conta_sacar_def Conta_depositar_def
      adicionar_transacao_def)

text \<open>
  C5 (amended). On a new checking account with balance 0: the deposit of 100 succeeds,
  giving balance 100 and history [Deposit 100]; the withdrawal of 50 succeeds, giving
  balance 50 and history [Deposit 100, Withdrawal 50]; the withdrawal of 600 fails with
  the above-the-limit line and changes nothing; of three further withdrawals of 50 the
  first succeeds, giving balance 0 and a second withdrawal record, and the other two
  fail with the insufficient-funds line and change nothing; a subsequent withdrawal of
  1 fails with the insufficient-funds line, two withdrawals being recorded.
\<close>

theorem cenario_conta_corrente:
  "registrar t1 (Deposito 100) (ObjContaCorrente (ContaCorrente_nova_conta cl n)) =
     (DepositoSucesso, ObjContaCorrente (corrente_com cl n 100
        [\<lparr>tipo = ''Deposito'', quantia = 100, data = t1\<rparr>])) \<and>
   registrar t2 (Saque 50) (ObjContaCorrente (corrente_com cl n 100
        [\<lparr>tipo = ''Deposito'', quantia = 100, data = t1\<rparr>])) =
     (SaqueSucesso, ObjContaCorrente (corrente_com cl n 50
        [\<lparr>tipo = ''Deposito'', quantia = 100, data = t1\<rparr>,
         \<lparr>tipo = ''Saque'', quantia = 50, data = t2\<rparr>])) \<and>
   registrar t3 (Saque 600) (ObjContaCorrente (corrente_com cl n 50
        [\<lparr>tipo = ''Deposito'', quantia = 100, data = t1\<rparr>,
         \<lparr>tipo = ''Saque'', quantia = 50, data = t2\<rparr>])) =
     (AcimaLimite, ObjContaCorrente (corrente_com cl n 50
        [\<lparr>tipo = ''Deposito'', quantia = 100, data = t1\<rparr>,
         \<lparr>tipo = ''Saque'', quantia = 50, data = t2\<rparr>])) \<and>
   registrar t4 (Saque 50) (ObjContaCorrente (corrente_com cl n 50
        [\<lparr>tipo = ''Deposito'', quantia = 100, data = t1\<rparr>,
         \<lparr>tipo = ''Saque'', quantia = 50, data = t2\<rparr>])) =
     (SaqueSucesso, ObjContaCorrente (corrente_com cl n 0
        [\<lparr>tipo = ''Deposito'', quantia = 100, data = t1\<rparr>,
         \<lparr>tipo = ''Saque'', quantia = 50, data = t2\<rparr>,
         \<lparr>tipo = ''Saque'', quantia = 50, data = t4\<rparr>])) \<and>
   registrar t5 (Saque 50) (ObjContaCorrente (corrente_com cl n 0
        [\<lparr>tipo = ''Deposito'', quantia = 100, data = t1\<rparr>,
         \<lparr>tipo = ''Saque'', quantia = 50, data = t2\<rparr>,
         \<lparr>tipo = ''Saque'', quantia = 50, data = t4\<rparr>])) =
     (SaldoInsuficiente, ObjContaCorrente (corrente_com cl n 0
        [\<lparr>tipo = ''Deposito'', quantia = 100, data = t1\<rparr>,
         \<lparr>tipo = ''Saque'', quantia = 50, data = t2\<rparr>,
         \<lparr>tipo = ''Saque'', quantia = 50, data = t4\<rparr>])) \<and>
   registrar t7 (Saque 1) (ObjContaCorrente (corrente_com cl n 0
        [\<lparr>tipo = ''Deposito'', quantia = 100, data = t1\<rparr>,
         \<lparr>tipo = ''Saque'', quantia = 50, data = t2\<rparr>,
         \<lparr>tipo = ''Saque'', quantia = 50, data = t4\<rparr>])) =
     (SaldoInsuficiente, ObjContaCorrente (corrente_com cl n 0
        [\<lparr>tipo = ''Deposito'', quantia = 100, data = t1\<rparr>,
         \<lparr>tipo = ''Saque'', quantia = 50, data = t2\<rparr>,
         \<lparr>tipo = ''Saque'', quantia = 50, data = t4\<rparr>])) \<and>
   numero_saques (corrente_com cl n 0
        [\<lparr>tipo = ''Deposito'', quantia = 100, data = t1\<rparr>,
         \<lparr>tipo = ''Saque'', quantia = 50, data = t2\<rparr>,
         \<lparr>tipo = ''Saque'', quantia = 50, data = t4\<rparr>]) = 2 \<and>
   executar [Registrar t1 (Deposito 100), Registrar t2 (Saque 50), Registrar t3 (Saque 600),
       Registrar t4 (Saque 50), Registrar t5 (Saque 50), Registrar t6 (Saque 50),
       Registrar t7 (Saque 1)]
     (ObjContaCorrente (ContaCorrente_nova_conta cl n)) =
     ObjContaCorrente (corrente_com cl n 0
        [\<lparr>tipo = ''Deposito'', quantia = 100, data = t1\<rparr>,
         \<lparr>tipo = ''Saque'', quantia = 50, data = t2\<rparr>,
         \<lparr>tipo = ''Saque'', quantia = 50, data = t4\<rparr>])"
  by (simp add: ContaCorrente_nova_conta_def ContaCorrente_init_def Historico_init_def
      numero_saques_def ContaCorrente_sacar_def Conta_sacar_def Conta_depositar_def
      adicionar_transacao_def)

section \<open>Every account\<close>



text \<open>
  C2 (as stated). The claim promises a withdrawal record only when the balance actually
  decreased by the amount. On an account holding 1e16 the registered withdrawal of 1.0
  succeeds and its record is appended, while the balance after it is the balance before
  it.
\<close>

theorem Saque_registrar_counterexample:
  "\<not> float_le (float_of_int 1) (Finite 0) \<and>
   registrar_f ''t2'' (Saque_f (float_of_int 1))
     (ObjConta_f ((Conta_f_init 1 0)\<lparr>saldo_f := float_of_int 10000000000000000,
        historico_f := \<lparr>transacoes_f =
          [\<lparr>tipo_f = ''Deposito'', quantia_f = float_of_int 10000000000000000,
            data_f = ''t1''\<rparr>]\<rparr>\<rparr>)) =
     (SaqueSucesso,
      ObjConta_f ((Conta_f_init 1 0)\<lparr>saldo_f := float_of_int 10000000000000000,
        historico_f := \<lparr>transacoes_f =
          [\<lparr>tipo_f = ''Deposito'', quantia_f = float_of_int 10000000000000000,
            data_f = ''t1''\<rparr>,
           \<lparr>tipo_f = ''Saque'', quantia_f = float_of_int 1, data_f = ''t2''\<rparr>]\<rparr>\<rparr>))"
proof -
  have one: "float_of_int 1 = Finite (1 * escala)"
    by (rule float_of_int_exact) simp
  show ?thesis
    unfolding one float_of_int_1e16
    by (simp add: Conta_f_init_def Conta_sacar_f_def float_gt_def float_sub_1e16
        adicionar_transacao_f_def)
qed

text \<open>
  C2 (amended). For every account and every withdrawal registered through
  \<open>Saque.registrar\<close>, the withdrawal record is appended to the history if and only if
  the withdrawal reported success. The balance is then replaced by the difference of
  balance and amount as Python computes it: for integers, and for doubles whose exact
  difference is a double, that is a decrease by exactly the amount; for other doubles it
  is the exact difference rounded to the nearest double, which can be the old balance. A
  change of the balance always comes with the record. When the withdrawal fails, neither
  the balance nor the history changes.
\<close>

theorem Saque_registrar_arredondado:
  "(transacoes_f (obj_historico_f (snd (registrar_f agora (Saque_f valor) conta))) =
      transacoes_f (obj_historico_f conta) @
        [\<lparr>tipo_f = ''Saque'', quantia_f = valor, data_f = agora\<rparr>]
    \<longleftrightarrow> fst (sacar_f valor conta)) \<and>
   (fst (sacar_f valor conta) \<longrightarrow>
      obj_saldo_f (snd (registrar_f agora (Saque_f valor) conta)) =
        float_sub (obj_saldo_f conta) valor) \<and>
   (fst (sacar_f valor conta) \<and> obj_saldo_f conta = Finite a \<and> valor = Finite b \<and>
    representable (a - b) \<longrightarrow>
      obj_saldo_f (snd (registrar_f agora (Saque_f valor) conta)) = Finite (a - b) \<and>
      a - b < a) \<and>
   (obj_saldo_f (snd (registrar_f agora (Saque_f valor) conta)) \<noteq> obj_saldo_f conta \<longrightarrow>
      transacoes_f (obj_historico_f (snd (registrar_f agora (Saque_f valor) conta))) =
        transacoes_f (obj_historico_f conta) @
          [\<lparr>tipo_f = ''Saque'', quantia_f = valor, data_f = agora\<rparr>]) \<and>
   (\<not> fst (sacar_f valor conta) \<longrightarrow>
      snd (registrar_f agora (Saque_f valor) conta) = conta) \<and>
   (transacoes (obj_historico (snd (registrar agora (Saque n) conta_i))) =
      transacoes (obj_historico conta_i) @ [\<lparr>tipo = ''Saque'', quantia = n, data = agora\<rparr>]
    \<longleftrightarrow>
    obj_saldo (snd (registrar agora (Saque n) conta_i)) < obj_saldo conta_i \<and>
    obj_saldo conta_i - obj_saldo (snd (registrar agora (Saque n) conta_i)) = n) \<and>
   (transacoes (obj_historico (snd (registrar agora (Saque n) conta_i))) =
      transacoes (obj_historico conta_i) @ [\<lparr>tipo = ''Saque'', quantia = n, data = agora\<rparr>]
    \<longleftrightarrow> fst (sacar n conta_i)) \<and>
   (\<not> fst (sacar n conta_i) \<longrightarrow> snd (registrar agora (Saque n) conta_i) = conta_i)"
proof -
  obtain ok m conta' where r: "sacar_f valor conta = (ok, m, conta')"
    by (cases "sacar_f valor conta") auto
  from sacar_f_resultado [OF r]
  have f1: "(transacoes_f (obj_historico_f (snd (registrar_f agora (Saque_f valor) conta))) =
      transacoes_f (obj_historico_f conta) @
        [\<lparr>tipo_f = ''Saque'', quantia_f = valor, data_f = agora\<rparr>]
    \<longleftrightarrow> fst (sacar_f valor conta))"
    and f2: "fst (sacar_f valor conta) \<longrightarrow>
      obj_saldo_f (snd (registrar_f agora (Saque_f valor) conta)) =
        float_sub (obj_saldo_f conta) valor"
    and f5: "\<not> fst (sacar_f valor conta) \<longrightarrow>
      snd (registrar_f agora (Saque_f valor) conta) = conta"
    using r by auto
  have f3: "fst (sacar_f valor conta) \<and> obj_saldo_f conta = Finite a \<and> valor = Finite b \<and>
    representable (a - b) \<longrightarrow>
      obj_saldo_f (snd (registrar_f agora (Saque_f valor) conta)) = Finite (a - b) \<and>
      a - b < a"
  proof
    assume h: "fst (sacar_f valor conta) \<and> obj_saldo_f conta = Finite a \<and> valor = Finite b \<and>
      representable (a - b)"
    with sacar_f_resultado [OF r] r have "\<not> float_le (Finite b) (Finite 0)" by auto
    then have "0 < b" by simp
    with h f2 show "obj_saldo_f (snd (registrar_f agora (Saque_f valor) conta)) = Finite (a - b) \<and>
      a - b < a"
      by (auto simp: float_sub_exact)
  qed
  from f1 f5 have f4: "obj_saldo_f (snd (registrar_f agora (Saque_f valor) conta)) \<noteq>
      obj_saldo_f conta \<longrightarrow>
      transacoes_f (obj_historico_f (snd (registrar_f agora (Saque_f valor) conta))) =
        transacoes_f (obj_historico_f conta) @
          [\<lparr>tipo_f = ''Saque'', quantia_f = valor, data_f = agora\<rparr>]"
    by auto
  obtain mi ci where ri: "registrar agora (Saque n) conta_i = (mi, ci)"
    by (cases "registrar agora (Saque n) conta_i") auto
  from registrar_resultado [OF ri] ri
  have i: "(transacoes (obj_historico (snd (registrar agora (Saque n) conta_i))) =
      transacoes (obj_historico conta_i) @ [\<lparr>tipo = ''Saque'', quantia = n, data = agora\<rparr>]
    \<longleftrightarrow>
    obj_saldo (snd (registrar agora (Saque n) conta_i)) < obj_saldo conta_i \<and>
    obj_saldo conta_i - obj_saldo (snd (registrar agora (Saque n) conta_i)) = n) \<and>
   (transacoes (obj_historico (snd (registrar agora (Saque n) conta_i))) =
      transacoes (obj_historico conta_i) @ [\<lparr>tipo = ''Saque'', quantia = n, data = agora\<rparr>]
    \<longleftrightarrow> fst (sacar n conta_i)) \<and>
   (\<not> fst (sacar n conta_i) \<longrightarrow> snd (registrar agora (Saque n) conta_i) = conta_i)"
    by auto
  from f1 f2 f3 f4 f5 i show ?thesis by blast
qed

theorem Saque_registrar_arredondado_witness:
  "transacoes_f (obj_historico_f (snd (registrar_f ''t1'' (Saque_f (Finite (30 * escala)))
      (ObjContaCorrente_f ((ContaCorrente_f_nova_conta 0 1)
         \<lparr>saldo_f := Finite (100 * escala)\<rparr>))))) =
     [\<lparr>tipo_f = ''Saque'', quantia_f = Finite (30 * escala), data_f = ''t1''\<rparr>] \<and>
   obj_saldo_f (snd (registrar_f ''t1'' (Saque_f (Finite (30 * escala)))
      (ObjContaCorrente_f ((ContaCorrente_f_nova_conta 0 1)
         \<lparr>saldo_f := Finite (100 * escala)\<rparr>)))) = Finite (70 * escala) \<and>
   snd (registrar_f ''t1'' (Saque_f (Finite 0)) (ObjConta_f (Conta_f_init 1 0))) =
     ObjConta_f (Conta_f_init 1 0) \<and>
   obj_saldo (snd (registrar ''t2'' (Saque 30)
      (ObjContaCorrente (corrente_com 0 1 100
        [\<lparr>tipo = ''Deposito'', quantia = 100, data = ''t1''\<rparr>])))) = 70 \<and>
   snd (registrar ''t1'' (Saque 0) (ObjConta (Conta_init 1 0))) = ObjConta (Conta_init 1 0)"
proof -
  have r: "representable (70 * escala)"
    by (rule representable_scaled) simp
  have s: "fst (sacar_f (Finite (30 * escala))
      (ObjContaCorrente_f ((ContaCorrente_f_nova_conta 0 1)
         \<lparr>saldo_f := Finite (100 * escala)\<rparr>)))"
    by (simp add: ContaCorrente_f_nova_conta_def ContaCorrente_f_init_def
        ContaCorrente_sacar_f_def Conta_sacar_f_def numero_saques_f_def Historico_f_init_def
        float_gt_def)
  have z: "\<not> fst (sacar_f (Finite 0) (ObjConta_f (Conta_f_init 1 0)))"
    by (simp add: Conta_sacar_f_def)
  have si: "fst (sacar 30 (ObjContaCorrente (corrente_com 0 1 100
        [\<lparr>tipo = ''Deposito'', quantia = 100, data = ''t1''\<rparr>])))"
    by (simp add: ContaCorrente_nova_conta_def ContaCorrente_init_def numero_saques_def
      ContaCorrente_sacar_def Conta_sacar_def)
  have zi: "\<not> fst (sacar 0 (ObjConta (Conta_init 1 0)))"
    by (simp add: Conta_sacar_def)
  show ?thesis
    using r s z si zi
      Saque_registrar_arredondado [of "''t1''" "Finite (30 * escala)"
        "ObjContaCorrente_f ((ContaCorrente_f_nova_conta 0 1)\<lparr>saldo_f := Finite (100 * escala)\<rparr>)"
        "100 * escala" "30 * escala" 0 "ObjConta (Conta_init 1 0)"]
      Saque_registrar_arredondado [of "''t1''" "Finite 0" "ObjConta_f (Conta_f_init 1 0)"
        0 0 0 "ObjConta (Conta_init 1 0)"]
      Saque_registrar_arredondado [of "''t2''" "Finite 0" "ObjConta_f (Conta_f_init 1 0)"
        0 0 30 "ObjContaCorrente (corrente_com 0 1 100
        [\<lparr>tipo = ''Deposito'', quantia = 100, data = ''t1''\<rparr>])"]
    by (simp add: ContaCorrente_f_nova_conta_def ContaCorrente_f_init_def Historico_f_init_def
        float_sub_scaled float_of_int_exact ContaCorrente_nova_conta_def
        ContaCorrente_init_def numero_saques_def ContaCorrente_sacar_def Conta_sacar_def)
qed

text \<open>
  C8. For every deposit and every withdrawal on any account, base or checking, called
  directly or through a registered transaction, a call that reports failure returns the
  account exactly as it was: every check comes before the only assignment. A failure is
  the result \<open>False\<close> together with one of the four failure lines; the methods have no
  other way out, being total functions of the amount and the account.
\<close>

theorem falha_sem_mutacao:
  "(\<not> fst (sacar valor conta) \<longrightarrow>
      snd (snd (sacar valor conta)) = conta \<and>
      registrar agora (Saque valor) conta = (fst (snd (sacar valor conta)), conta) \<and>
      fst (snd (sacar valor conta)) \<in>
        {ValorInvalido, SaldoInsuficiente, AcimaLimite, MaximoSaques}) \<and>
   (\<not> fst (depositar valor conta) \<longrightarrow>
      snd (snd (depositar valor conta)) = conta \<and>
      registrar agora (Deposito valor) conta = (ValorInvalido, conta) \<and>
      fst (snd (depositar valor conta)) = ValorInvalido) \<and>
   (\<not> fst (Conta_sacar valor c) \<longrightarrow> snd (snd (Conta_sacar valor c)) = c) \<and>
   (\<not> fst (Conta_depositar valor c) \<longrightarrow> snd (snd (Conta_depositar valor c)) = c) \<and>
   (\<not> fst (ContaCorrente_sacar valor cc) \<longrightarrow> snd (snd (ContaCorrente_sacar valor cc)) = cc)"
  by (cases conta)
    (simp_all add: Conta_sacar_def Conta_depositar_def ContaCorrente_sacar_def)

theorem falha_sem_mutacao_witness:
  "\<not> fst (sacar 30 (ObjConta (Conta_init 1 0))) \<and>
   registrar ''t1'' (Saque 30) (ObjConta (Conta_init 1 0)) =
     (SaldoInsuficiente, ObjConta (Conta_init 1 0)) \<and>
   \<not> fst (depositar (-1) (ObjConta (Conta_init 1 0))) \<and>
   registrar ''t1'' (Deposito (-1)) (ObjConta (Conta_init 1 0)) =
     (ValorInvalido, ObjConta (Conta_init 1 0)) \<and>
   \<not> fst (ContaCorrente_sacar 600 (ContaCorrente_nova_conta 0 1)) \<and>
   snd (snd (ContaCorrente_sacar 600 (ContaCorrente_nova_conta 0 1))) =
     ContaCorrente_nova_conta 0 1"
  using falha_sem_mutacao [of 30 "ObjConta (Conta_init 1 0)" "''t1''" "Conta_init 1 0"
      "ContaCorrente_nova_conta 0 1"]
    falha_sem_mutacao [of "-1" "ObjConta (Conta_init 1 0)" "''t1''" "Conta_init 1 0"
      "ContaCorrente_nova_conta 0 1"]
    falha_sem_mutacao [of 600 "ObjConta (Conta_init 1 0)" "''t1''" "Conta_init 1 0"
      "ContaCorrente_nova_conta 0 1"]
  by (simp add: Conta_init_def Conta_sacar_def Conta_depositar_def ContaCorrente_sacar_def
      ContaCorrente_nova_conta_def ContaCorrente_init_def)

text \<open>
  C9. For every sequence of calls on an account, the history after the sequence is the
  history before it followed by the records of exactly the registrations that
  succeeded, in the order in which they were run: the earlier entries stay in place as
  a prefix, the new entries are a subsequence of the requested registrations (none is
  repeated, none is out of order), and a failed attempt leaves no record. One call
  changes the history by appending at most one record.
\<close>

theorem historico_em_ordem:
  "transacoes (obj_historico (executar cs conta)) =
     transacoes (obj_historico conta) @ registros_esperados cs conta \<and>
   prefix (transacoes (obj_historico conta)) (transacoes (obj_historico (executar cs conta))) \<and>
   subseq (registros_esperados cs conta) (pedidos cs) \<and>
   transacoes (obj_historico (snd (registrar agora t conta))) =
     transacoes (obj_historico conta) @
       (if bem_sucedida t conta
        then [\<lparr>tipo = nome_classe t, quantia = transacao_valor t, data = agora\<rparr>] else []) \<and>
   obj_historico (snd (snd (sacar valor conta))) = obj_historico conta \<and>
   obj_historico (snd (snd (depositar valor conta))) = obj_historico conta"
proof -
  have h: "transacoes (obj_historico (executar cs conta)) =
     transacoes (obj_historico conta) @ registros_esperados cs conta"
    by (rule executar_historico)
  have r: "transacoes (obj_historico (snd (registrar agora t conta))) =
     transacoes (obj_historico conta) @
       (if bem_sucedida t conta
        then [\<lparr>tipo = nome_classe t, quantia = transacao_valor t, data = agora\<rparr>] else [])"
    using aplicar_historico [of "Registrar agora t" conta] by simp
  have s: "obj_historico (snd (snd (sacar valor conta))) = obj_historico conta"
    using sacar_resultado [of valor conta] by (cases "sacar valor conta") auto
  have d: "obj_historico (snd (snd (depositar valor conta))) = obj_historico conta"
    using depositar_resultado [of valor conta] by (cases "depositar valor conta") auto
  from h have "prefix (transacoes (obj_historico conta))
      (transacoes (obj_historico (executar cs conta)))"
    by simp
  with h r s d registros_esperados_subseq [of cs conta] show ?thesis by blast
qed

theorem historico_em_ordem_witness:
  "transacoes (obj_historico (executar
      [Registrar ''t1'' (Deposito 100), Registrar ''t2'' (Saque 600), Sacar 10,
       Registrar ''t3'' (Saque 50), Registrar ''t4'' (Deposito 0), Registrar ''t5'' (Deposito 5)]
      (ObjContaCorrente (ContaCorrente_nova_conta 0 1)))) =
     [\<lparr>tipo = ''Deposito'', quantia = 100, data = ''t1''\<rparr>,
      \<lparr>tipo = ''Saque'', quantia = 50, data = ''t3''\<rparr>,
      \<lparr>tipo = ''Deposito'', quantia = 5, data = ''t5''\<rparr>]"
  using historico_em_ordem [of
      "[Registrar ''t1'' (Deposito 100), Registrar ''t2'' (Saque 600), Sacar 10,
       Registrar ''t3'' (Saque 50), Registrar ''t4'' (Deposito 0), Registrar ''t5'' (Deposito 5)]"
      "ObjContaCorrente (ContaCorrente_nova_conta 0 1)" "''t1''" "Saque 1" 1]
  by (simp add: ContaCorrente_nova_conta_def ContaCorrente_init_def Historico_init_def
      numero_saques_def ContaCorrente_sacar_def Conta_sacar_def Conta_depositar_def
      adicionar_transacao_def)

end
